theory Spec2Isabelle
  imports Main "HOL-Library.Word"
begin

unbundle bit_operations_syntax

section \<open>Data model\<close>

text \<open>
  The package wraps the SQLite C library through cgo. The library itself, and the Go
  files of the package that are not part of the two files verified here (the statement
  wrapper, the statement cache, the hooks, the pragmas, the logging), are an opaque
  engine: a record of functions over an engine state \<open>'e\<close>. Every function of
  \<^verbatim>\<open>sqlite.go\<close> and \<^verbatim>\<open>driver.go\<close> below is written over an arbitrary engine.
\<close>

type_synonym handle = nat \<comment> \<open>a non-nil \<^verbatim>\<open>*C.sqlite3\<close>\<close>
type_synonym stmt_handle = nat \<comment> \<open>a non-nil \<^verbatim>\<open>*Stmt\<close> or \<^verbatim>\<open>*C.sqlite3_stmt\<close>\<close>
type_synonym Context = nat \<comment> \<open>the identity of a \<^verbatim>\<open>context.Context\<close>\<close>

text \<open>A call either returns or panics; Go runs the deferred functions in both cases.\<close>

datatype 'a outcome = Return 'a | Panic string

text \<open>\<^verbatim>\<open>type ConnError struct\<close> (the back-pointer \<open>c\<close> is left out: no modelled function reads it).\<close>

record ConnError =
  code :: int
  msg :: string
  details :: string

text \<open>
  A non-nil value of the interface \<^verbatim>\<open>error\<close>, by dynamic type. A \<^verbatim>\<open>ConnError\<close> and a
  \<^verbatim>\<open>*ConnError\<close> are different dynamic types: a type assertion to one fails on the other.
  \<^verbatim>\<open>nil\<close> is \<open>None\<close> of \<open>error option\<close>.
\<close>

datatype error =
    ErrorString string \<comment> \<open>\<^verbatim>\<open>errors.New\<close>, \<^verbatim>\<open>fmt.Errorf\<close>\<close>
  | ConnErrorValue ConnError \<comment> \<open>dynamic type \<^verbatim>\<open>ConnError\<close>\<close>
  | ConnErrorPointer ConnError \<comment> \<open>dynamic type \<^verbatim>\<open>*ConnError\<close>\<close>
  | ErrBadConn \<comment> \<open>\<^verbatim>\<open>driver.ErrBadConn\<close>\<close>
  | EOF \<comment> \<open>\<^verbatim>\<open>io.EOF\<close>\<close>

text \<open>A \<^verbatim>\<open>driver.Value\<close>, and the \<^verbatim>\<open>interface{}\<close> payload handed to a progress callback.\<close>

datatype val = VNull | VInt int | VText string

datatype payload = PNil | PContext Context | POther val

text \<open>
  The registration kept in \<^verbatim>\<open>Conn.progressHandler\<close>: the callback, the polling interval
  and the payload. The callback is given, beside its payload, what it can observe when it
  is polled: which contexts have their \<^verbatim>\<open>Done\<close> channel closed at that moment.
\<close>

record progress_hook =
  hook_f :: "(Context \<Rightarrow> bool) \<Rightarrow> payload \<Rightarrow> bool"
  hook_numOps :: int
  hook_udp :: payload

text \<open>
  \<^verbatim>\<open>*Stmt\<close>, the statement wrapper of the package (declared outside the two files): its
  identity and the two fields that \<^verbatim>\<open>Conn.Exec\<close> reads.
\<close>

record Stmt =
  Stmt_id :: stmt_handle
  Stmt_stmt :: "stmt_handle option" \<comment> \<open>\<^verbatim>\<open>s.stmt\<close>, nil for a comment or white space\<close>
  Stmt_tail :: string \<comment> \<open>\<^verbatim>\<open>s.tail\<close>, the SQL text after the first statement\<close>

text \<open>The trace of calls that leave the two files: into the C library or into the rest of the package.\<close>

datatype call =
    C_exec string \<comment> \<open>\<^verbatim>\<open>sqlite3_exec\<close> of this SQL text\<close>
  | C_errmsg
  | C_get_autocommit
  | C_close
  | C_next_stmt
  | C_stmt_busy stmt_handle
  | C_sql stmt_handle
  | C_finalize stmt_handle
  | C_last_insert_rowid
  | C_changes
  | C_cache_flush
  | C_Log int string
  | C_SetQueryOnly string bool
  | C_Prepare string
  | C_prepare string
  | C_BindParameterCount Stmt
  | C_BindParameterIndex Stmt string
  | C_BindByIndex Stmt int val
  | C_Stmt_Exec Stmt "val list"
  | C_Stmt_ExecDml Stmt "val list"
  | C_Stmt_exec Stmt
  | C_Stmt_Next Stmt
  | C_ScanValue Stmt int
  | C_Stmt_finalize Stmt
  | C_Stmt_Finalize Stmt

text \<open>
  The engine. The first group is the C library, called on the handle \<^verbatim>\<open>c.db\<close>; the second
  group is the functions of the package that the two files call and do not define. The
  functions that step a statement are given the connection's progress hook registration,
  which the library polls while it runs.
\<close>

record 'e engine =
  sqlite3_exec :: "handle option \<Rightarrow> string \<Rightarrow> 'e \<Rightarrow> int \<times> 'e"
  sqlite3_errmsg :: "handle option \<Rightarrow> 'e \<Rightarrow> string"
  sqlite3_errstr :: "int \<Rightarrow> string"
  sqlite3_get_autocommit :: "handle option \<Rightarrow> 'e \<Rightarrow> int"
  sqlite3_close :: "handle option \<Rightarrow> 'e \<Rightarrow> int \<times> 'e"
  sqlite3_next_stmt :: "handle option \<Rightarrow> 'e \<Rightarrow> stmt_handle option"
  sqlite3_stmt_busy :: "stmt_handle \<Rightarrow> 'e \<Rightarrow> int"
  sqlite3_sql :: "stmt_handle \<Rightarrow> 'e \<Rightarrow> string"
  sqlite3_finalize :: "stmt_handle \<Rightarrow> 'e \<Rightarrow> 'e"
  sqlite3_last_insert_rowid :: "handle option \<Rightarrow> 'e \<Rightarrow> int"
  sqlite3_changes :: "handle option \<Rightarrow> 'e \<Rightarrow> int"
  Mprintf :: "string \<Rightarrow> string \<Rightarrow> string"
  cache_flush :: "'e \<Rightarrow> 'e"
  SetQueryOnly :: "string \<Rightarrow> bool \<Rightarrow> 'e \<Rightarrow> error option \<times> 'e"
  Prepare :: "string \<Rightarrow> 'e \<Rightarrow> (error + Stmt) \<times> 'e"
  prepare :: "string \<Rightarrow> 'e \<Rightarrow> (error + Stmt) \<times> 'e"
  BindParameterCount :: "Stmt \<Rightarrow> 'e \<Rightarrow> nat"
  BindParameterIndex :: "Stmt \<Rightarrow> string \<Rightarrow> 'e \<Rightarrow> (error + int) \<times> 'e"
  BindByIndex :: "Stmt \<Rightarrow> int \<Rightarrow> val \<Rightarrow> 'e \<Rightarrow> error option \<times> 'e"
  Stmt_Exec :: "Stmt \<Rightarrow> val list \<Rightarrow> 'e \<Rightarrow> error option \<times> 'e"
  Stmt_ExecDml :: "Stmt \<Rightarrow> val list \<Rightarrow> 'e \<Rightarrow> (int \<times> error option) \<times> 'e"
  Stmt_exec :: "Stmt \<Rightarrow> progress_hook option \<Rightarrow> 'e \<Rightarrow> error option \<times> 'e"
  Stmt_Next :: "Stmt \<Rightarrow> progress_hook option \<Rightarrow> 'e \<Rightarrow> (bool \<times> error option) \<times> 'e"
  ScanValue :: "Stmt \<Rightarrow> int \<Rightarrow> bool \<Rightarrow> 'e \<Rightarrow> val"
  Stmt_finalize :: "Stmt \<Rightarrow> 'e \<Rightarrow> error option \<times> 'e"
  Stmt_Finalize :: "Stmt \<Rightarrow> 'e \<Rightarrow> error option \<times> 'e"

text \<open>
  \<^verbatim>\<open>type Conn struct\<close>: the fields the modelled functions read or write, and two ghost
  fields: \<open>world\<close>, the state of the engine, and \<open>calls\<close>, the trace.
\<close>

record 'e Conn =
  db :: "handle option"
  progressHandler :: "progress_hook option"
  nTransaction :: "8 word"
  world :: 'e
  calls :: "call list"

text \<open>A call that changes the engine's state, and a call that only reads it.\<close>

definition engine_call :: "call \<Rightarrow> ('e \<Rightarrow> 'a \<times> 'e) \<Rightarrow> 'e Conn \<Rightarrow> 'a \<times> 'e Conn" where
  "engine_call k g c = (let (r, w) = g (world c) in (r, c\<lparr>world := w, calls := calls c @ [k]\<rparr>))"

definition engine_read :: "call \<Rightarrow> ('e \<Rightarrow> 'a) \<Rightarrow> 'e Conn \<Rightarrow> 'a \<times> 'e Conn" where
  "engine_read k g c = (g (world c), c\<lparr>calls := calls c @ [k]\<rparr>)"

text \<open>The SQL texts handed to \<^verbatim>\<open>sqlite3_exec\<close>, in order.\<close>

fun sql_of :: "call \<Rightarrow> string list" where
  "sql_of (C_exec q) = [q]"
| "sql_of _ = []"

definition issued :: "'e Conn \<Rightarrow> string list" where
  "issued c = concat (map sql_of (calls c))"

section \<open>Formatting\<close>

definition digit :: "nat \<Rightarrow> char" where
  "digit d = ''0123456789'' ! d"

function nat_to_dec :: "nat \<Rightarrow> string" where
  "nat_to_dec n = (if n < 10 then [digit n] else nat_to_dec (n div 10) @ [digit (n mod 10)])"
  by pat_completeness auto
termination
  by (relation "measure id") auto

declare nat_to_dec.simps [simp del]

definition hexdigit :: "nat \<Rightarrow> char" where
  "hexdigit d = ''0123456789abcdef'' ! d"

function nat_to_hex :: "nat \<Rightarrow> string" where
  "nat_to_hex n = (if n < 16 then [hexdigit n] else nat_to_hex (n div 16) @ [hexdigit (n mod 16)])"
  by pat_completeness auto
termination
  by (relation "measure id") auto

declare nat_to_hex.simps [simp del]

text \<open>\<^verbatim>\<open>strconv.Itoa\<close> and the verb \<^verbatim>\<open>%d\<close>.\<close>

definition Itoa :: "int \<Rightarrow> string" where
  "Itoa i = (if i < 0 then CHR ''-'' # nat_to_dec (nat (- i)) else nat_to_dec (nat i))"

section \<open>sqlite.go\<close>

abbreviation (input) SQLITE_OK :: int where "SQLITE_OK \<equiv> 0"
abbreviation (input) SQLITE_BUSY :: int where "SQLITE_BUSY \<equiv> 5"
abbreviation (input) ErrSpecific :: int where "ErrSpecific \<equiv> - 1"

text \<open>\<^verbatim>\<open>func (e Errno) Error() string\<close>\<close>

definition Errno_Error :: "'e engine \<Rightarrow> int \<Rightarrow> string" where
  "Errno_Error E e =
     (let s = (if e = ErrSpecific then ''wrapper specific error'' else sqlite3_errstr E e)
      in if s = [] then ''errno '' @ Itoa e else s)"

text \<open>\<^verbatim>\<open>func (e ConnError) Error() string\<close>\<close>

definition ConnError_Error :: "'e engine \<Rightarrow> ConnError \<Rightarrow> string" where
  "ConnError_Error E e =
     (if length (details e) > 0 then
        msg e @ '' ('' @ details e @ '') ('' @ Errno_Error E (code e) @ '')''
      else if length (msg e) > 0 then
        msg e @ '' ('' @ Errno_Error E (code e) @ '')''
      else Errno_Error E (code e))"

text \<open>The method \<^verbatim>\<open>Error()\<close> of an \<^verbatim>\<open>error\<close> value, dispatched on its dynamic type.\<close>

fun error_Error :: "'e engine \<Rightarrow> error \<Rightarrow> string" where
  "error_Error E (ErrorString s) = s"
| "error_Error E (ConnErrorValue e) = ConnError_Error E e"
| "error_Error E (ConnErrorPointer e) = ConnError_Error E e"
| "error_Error E ErrBadConn = ''driver: bad connection''"
| "error_Error E EOF = ''EOF''"

text \<open>
  \<^verbatim>\<open>func (c *Conn) error(rv C.int, details ...string) error\<close>, on a non-nil receiver: each
  caller below has read \<^verbatim>\<open>c.db\<close> before it calls \<^verbatim>\<open>c.error\<close>. The error built is a
  \<^verbatim>\<open>ConnError\<close> value, not a pointer to one.
\<close>

definition Conn_error :: "'e engine \<Rightarrow> int \<Rightarrow> string list \<Rightarrow> 'e Conn \<Rightarrow> error option \<times> 'e Conn" where
  "Conn_error E rv dets c =
     (if rv = SQLITE_OK then (None, c)
      else
        let (m, c1) = engine_read C_errmsg (sqlite3_errmsg E (db c)) c;
            err = \<lparr>code = rv, msg = m, details = []\<rparr>;
            err = (case dets of [] \<Rightarrow> err | d # _ \<Rightarrow> err\<lparr>details := d\<rparr>)
        in (Some (ConnErrorValue err), c1))"

text \<open>\<^verbatim>\<open>func (c *Conn) FastExec(sql string) error\<close>\<close>

definition Conn_FastExec :: "'e engine \<Rightarrow> string \<Rightarrow> 'e Conn \<Rightarrow> error option \<times> 'e Conn" where
  "Conn_FastExec E sql c =
     (let (rv, c1) = engine_call (C_exec sql) (sqlite3_exec E (db c) sql) c
      in Conn_error E rv [] c1)"

text \<open>\<^verbatim>\<open>func (c *Conn) GetAutocommit() bool\<close>\<close>

definition Conn_GetAutocommit :: "'e engine \<Rightarrow> 'e Conn \<Rightarrow> bool \<times> 'e Conn" where
  "Conn_GetAutocommit E c =
     (let (rv, c1) = engine_read C_get_autocommit (sqlite3_get_autocommit E (db c)) c
      in (rv \<noteq> 0, c1))"

type_synonym TransactionType = "8 word"

abbreviation (input) Deferred :: TransactionType where "Deferred \<equiv> 0"
abbreviation (input) Immediate :: TransactionType where "Immediate \<equiv> 1"
abbreviation (input) Exclusive :: TransactionType where "Exclusive \<equiv> 2"

text \<open>\<^verbatim>\<open>func (c *Conn) BeginTransaction(t TransactionType) error\<close>\<close>

definition Conn_BeginTransaction ::
  "'e engine \<Rightarrow> TransactionType \<Rightarrow> 'e Conn \<Rightarrow> error option outcome \<times> 'e Conn" where
  "Conn_BeginTransaction E t c =
     (if t = Deferred then (let (r, c1) = Conn_FastExec E ''BEGIN'' c in (Return r, c1))
      else if t = Immediate then (let (r, c1) = Conn_FastExec E ''BEGIN IMMEDIATE'' c in (Return r, c1))
      else if t = Exclusive then (let (r, c1) = Conn_FastExec E ''BEGIN EXCLUSIVE'' c in (Return r, c1))
      else (Panic (''Unsupported transaction type: '' @ [CHR 0x27] @ ''0x'' @ nat_to_hex (unat t) @ [CHR 0x27]), c))"

text \<open>\<^verbatim>\<open>func (c *Conn) Rollback() error\<close>\<close>

definition Conn_Rollback :: "'e engine \<Rightarrow> 'e Conn \<Rightarrow> error option \<times> 'e Conn" where
  "Conn_Rollback E c = Conn_FastExec E ''ROLLBACK'' c"

text \<open>\<^verbatim>\<open>func (c *Conn) Commit() error\<close>\<close>

definition Conn_Commit :: "'e engine \<Rightarrow> 'e Conn \<Rightarrow> error option \<times> 'e Conn" where
  "Conn_Commit E c =
     (let (err, c1) = Conn_FastExec E ''COMMIT'' c
      in if err \<noteq> None then
           (let (ac, c2) = Conn_GetAutocommit E c1
            in if \<not> ac then (let (_, c3) = Conn_Rollback E c2 in (err, c3))
               else (err, c2))
         else (err, c1))"

text \<open>\<^verbatim>\<open>Log(code, msg)\<close> is not in the two files; the model records the call.\<close>

definition Log :: "int \<Rightarrow> string \<Rightarrow> 'e Conn \<Rightarrow> 'e Conn" where
  "Log n m c = snd (engine_read (C_Log n m) (\<lambda>w. ()) c)"

text \<open>\<^verbatim>\<open>func (c *Conn) Savepoint(name string) error\<close>\<close>

definition Conn_Savepoint :: "'e engine \<Rightarrow> string \<Rightarrow> 'e Conn \<Rightarrow> error option \<times> 'e Conn" where
  "Conn_Savepoint E name c = Conn_FastExec E (Mprintf E ''SAVEPOINT %Q'' name) c"

text \<open>\<^verbatim>\<open>func (c *Conn) ReleaseSavepoint(name string) error\<close>\<close>

definition Conn_ReleaseSavepoint :: "'e engine \<Rightarrow> string \<Rightarrow> 'e Conn \<Rightarrow> error option \<times> 'e Conn" where
  "Conn_ReleaseSavepoint E name c = Conn_FastExec E (Mprintf E ''RELEASE %Q'' name) c"

text \<open>\<^verbatim>\<open>func (c *Conn) RollbackSavepoint(name string) error\<close>\<close>

definition Conn_RollbackSavepoint :: "'e engine \<Rightarrow> string \<Rightarrow> 'e Conn \<Rightarrow> error option \<times> 'e Conn" where
  "Conn_RollbackSavepoint E name c = Conn_FastExec E (Mprintf E ''ROLLBACK TO SAVEPOINT %Q'' name) c"

text \<open>The type assertion \<^verbatim>\<open>_, ko := err.(*ConnError)\<close>.\<close>

fun is_ConnError_pointer :: "error \<Rightarrow> bool" where
  "is_ConnError_pointer (ConnErrorPointer e) = True"
| "is_ConnError_pointer _ = False"

text \<open>
  The function deferred by \<^verbatim>\<open>Transaction\<close>, run with the value \<open>err\<close> that the local
  variable holds when the body has returned. What the deferred function assigns to the
  variable afterwards decides the last rollback only: the result of \<^verbatim>\<open>Transaction\<close> is
  unnamed, so it is fixed by \<^verbatim>\<open>return err\<close> before the deferred function runs.
\<close>

definition Transaction_deferred :: "'e engine \<Rightarrow> error option \<Rightarrow> 'e Conn \<Rightarrow> 'e Conn" where
  "Transaction_deferred E err c =
     (let c1 = c\<lparr>nTransaction := nTransaction c - 1\<rparr>;
          name = Itoa (uint (nTransaction c1))
      in case err of
           Some e \<Rightarrow>
             (let ko = is_ConnError_pointer e
              in if nTransaction c1 = 0 \<or> ko then snd (Conn_Rollback E c1)
                 else
                   (case Conn_RollbackSavepoint E name c1 of
                      (Some rerr, c2) \<Rightarrow> Log (- 1) (error_Error E rerr) c2
                    | (None, c2) \<Rightarrow>
                        (case Conn_ReleaseSavepoint E name c2 of
                           (Some rerr, c3) \<Rightarrow> Log (- 1) (error_Error E rerr) c3
                         | (None, c3) \<Rightarrow> c3)))
         | None \<Rightarrow>
             (let (err2, c2) = (if nTransaction c1 = 0 then Conn_Commit E c1
                                else Conn_ReleaseSavepoint E name c1)
              in if err2 \<noteq> None then snd (Conn_Rollback E c2) else c2))"

text \<open>
  The first statement of \<^verbatim>\<open>Transaction\<close>: \<^verbatim>\<open>BEGIN\<close> at depth 0, a savepoint named by the
  depth otherwise.
\<close>

definition Transaction_begin ::
  "'e engine \<Rightarrow> TransactionType \<Rightarrow> 'e Conn \<Rightarrow> error option outcome \<times> 'e Conn" where
  "Transaction_begin E t c =
     (if nTransaction c = 0 then Conn_BeginTransaction E t c
      else (let (e, c1) = Conn_Savepoint E (Itoa (uint (nTransaction c))) c in (Return e, c1)))"

text \<open>
  \<^verbatim>\<open>func (c *Conn) Transaction(t TransactionType, f func(c *Conn) error) error\<close>.
  The body \<open>f\<close> is any function on the connection; when it panics the deferred function
  still runs, with the variable \<open>err\<close> still nil.
\<close>

definition Conn_Transaction ::
  "'e engine \<Rightarrow> TransactionType \<Rightarrow> ('e Conn \<Rightarrow> error option outcome \<times> 'e Conn) \<Rightarrow> 'e Conn
     \<Rightarrow> error option outcome \<times> 'e Conn" where
  "Conn_Transaction E t f c =
     (case Transaction_begin E t c of
        (Panic m, c1) \<Rightarrow> (Panic m, c1)
      | (Return (Some e), c1) \<Rightarrow> (Return (Some e), c1)
      | (Return None, c1) \<Rightarrow>
          (let c2 = c1\<lparr>nTransaction := nTransaction c1 + 1\<rparr>
           in case f c2 of
                (Return err, c3) \<Rightarrow> (Return err, Transaction_deferred E err c3)
              | (Panic m, c3) \<Rightarrow> (Panic m, Transaction_deferred E None c3)))"

text \<open>\<^verbatim>\<open>func (c *Conn) Begin() error\<close>\<close>

definition Conn_Begin :: "'e engine \<Rightarrow> 'e Conn \<Rightarrow> error option outcome \<times> 'e Conn" where
  "Conn_Begin E c = Conn_BeginTransaction E Deferred c"

text \<open>\<^verbatim>\<open>func (c *Conn) Changes() int\<close> and \<^verbatim>\<open>func (c *Conn) LastInsertRowid() int64\<close>\<close>

definition Conn_Changes :: "'e engine \<Rightarrow> 'e Conn \<Rightarrow> int \<times> 'e Conn" where
  "Conn_Changes E c = engine_read C_changes (sqlite3_changes E (db c)) c"

definition Conn_LastInsertRowid :: "'e engine \<Rightarrow> 'e Conn \<Rightarrow> int \<times> 'e Conn" where
  "Conn_LastInsertRowid E c = engine_read C_last_insert_rowid (sqlite3_last_insert_rowid E (db c)) c"

text \<open>
  \<^verbatim>\<open>func (c *Conn) Exec(cmd string, args ...interface{}) error\<close>: the loop runs while SQL
  text is left, so it is a partial function; \<open>None\<close> is a run that never ends.
\<close>

partial_function (option) Conn_Exec ::
  "'e engine \<Rightarrow> string \<Rightarrow> val list \<Rightarrow> 'e Conn \<Rightarrow> (error option \<times> 'e Conn) option" where
  "Conn_Exec E cmd args c =
     (if length cmd > 0 then
        (case engine_call (C_prepare cmd) (prepare E cmd) c of
           (Inl err, c1) \<Rightarrow> Some (Some err, c1)
         | (Inr s, c1) \<Rightarrow>
             if Stmt_stmt s = None then Conn_Exec E (Stmt_tail s) args c1
             else
               (let (count, c2) = engine_read (C_BindParameterCount s) (BindParameterCount E s) c1;
                    (subargs, args2) =
                      (if length (Stmt_tail s) > 0 \<and> length args \<ge> count
                       then (take count args, drop count args) else (args, args));
                    (err, c3) = engine_call (C_Stmt_Exec s subargs) (Stmt_Exec E s subargs) c2
                in if err \<noteq> None then
                     (let (_, c4) = engine_call (C_Stmt_finalize s) (Stmt_finalize E s) c3
                      in Some (err, c4))
                   else
                     (let (err2, c4) = engine_call (C_Stmt_finalize s) (Stmt_finalize E s) c3
                      in if err2 \<noteq> None then Some (err2, c4)
                         else Conn_Exec E (Stmt_tail s) args2 c4)))
      else Some (None, c))"

text \<open>
  \<^verbatim>\<open>func (c *Conn) ExecDml(cmd string, args ...interface{}) (changes int, err error)\<close>;
  the deferred \<^verbatim>\<open>s.Finalize()\<close> runs after the result is fixed.
\<close>

definition Conn_ExecDml ::
  "'e engine \<Rightarrow> string \<Rightarrow> val list \<Rightarrow> 'e Conn \<Rightarrow> (int \<times> error option) \<times> 'e Conn" where
  "Conn_ExecDml E cmd args c =
     (case engine_call (C_Prepare cmd) (Prepare E cmd) c of
        (Inl err, c1) \<Rightarrow> ((- 1, Some err), c1)
      | (Inr s, c1) \<Rightarrow>
          (let (r, c2) = engine_call (C_Stmt_ExecDml s args) (Stmt_ExecDml E s args) c1;
               (_, c3) = engine_call (C_Stmt_Finalize s) (Stmt_Finalize E s) c2
           in (r, c3)))"

text \<open>\<^verbatim>\<open>func (c *Conn) Insert(cmd string, args ...interface{}) (rowid int64, err error)\<close>\<close>

definition Conn_Insert ::
  "'e engine \<Rightarrow> string \<Rightarrow> val list \<Rightarrow> 'e Conn \<Rightarrow> (int \<times> error option) \<times> 'e Conn" where
  "Conn_Insert E cmd args c =
     (let ((n, err), c1) = Conn_ExecDml E cmd args c
      in if err \<noteq> None then ((- 1, err), c1)
         else if n = 0 then ((- 1, None), c1)
         else (let (rowid, c2) = Conn_LastInsertRowid E c1 in ((rowid, None), c2)))"

text \<open>
  The loop of \<^verbatim>\<open>Close\<close> over the dangling statements: log, finalize, ask for the next
  one. It ends when the library has no statement left.
\<close>

definition dquote :: string where
  "dquote = [CHR 0x22]"

partial_function (option) Close_dangling ::
  "'e engine \<Rightarrow> stmt_handle option \<Rightarrow> 'e Conn \<Rightarrow> 'e Conn option" where
  "Close_dangling E st c =
     (case st of
        None \<Rightarrow> Some c
      | Some h \<Rightarrow>
          (let (busy, c1) = engine_read (C_stmt_busy h) (sqlite3_stmt_busy E h) c;
               (sql, c2) = engine_read (C_sql h) (sqlite3_sql E h) c1;
               c3 = (if busy \<noteq> 0
                     then Log 21 (''Dangling statement (not reset): '' @ dquote @ sql @ dquote) c2
                     else Log 21 (''Dangling statement (not finalize): '' @ dquote @ sql @ dquote) c2);
               (_, c4) = engine_call (C_finalize h) (\<lambda>w. ((), sqlite3_finalize E h w)) c3;
               (nxt, c5) = engine_read C_next_stmt (sqlite3_next_stmt E (db c4)) c4
           in Close_dangling E nxt c5))"

text \<open>The end of \<^verbatim>\<open>Close\<close>, with the result \<open>rv\<close> of the last \<^verbatim>\<open>sqlite3_close\<close>.\<close>

definition Close_finish :: "'e engine \<Rightarrow> int \<Rightarrow> 'e Conn \<Rightarrow> error option \<times> 'e Conn option" where
  "Close_finish E rv c =
     (if rv \<noteq> SQLITE_OK then
        (let c1 = Log rv ''error while closing Conn'' c;
             (err, c2) = Conn_error E rv [''Conn.Close''] c1
         in (err, Some c2))
      else (None, Some (c\<lparr>db := None\<rparr>)))"

text \<open>
  \<^verbatim>\<open>func (c *Conn) Close() error\<close>, on a receiver that may be nil (\<open>None\<close>). The inner
  \<open>option\<close> of the result is the receiver afterwards; the outer one is \<open>None\<close> when the loop
  over the dangling statements never ends.
\<close>

definition Conn_Close ::
  "'e engine \<Rightarrow> 'e Conn option \<Rightarrow> (error option \<times> 'e Conn option) option" where
  "Conn_Close E p =
     (case p of
        None \<Rightarrow> Some (Some (ErrorString ''nil sqlite database''), None)
      | Some c \<Rightarrow>
          if db c = None then Some (None, Some c)
          else
            (let (_, c1) = engine_call C_cache_flush (\<lambda>w. ((), cache_flush E w)) c;
                 (rv, c2) = engine_call C_close (sqlite3_close E (db c1)) c1
             in if rv AND 0xFF = SQLITE_BUSY then
                  (let (st, c3) = engine_read C_next_stmt (sqlite3_next_stmt E (db c2)) c2
                   in Option.bind (Close_dangling E st c3)
                        (\<lambda>c4. let (rv2, c5) = engine_call C_close (sqlite3_close E (db c4)) c4
                              in Some (Close_finish E rv2 c5)))
                else Some (Close_finish E rv c2)))"

text \<open>\<^verbatim>\<open>func (c *Conn) IsClosed() bool\<close>\<close>

definition Conn_IsClosed :: "'e Conn option \<Rightarrow> bool" where
  "Conn_IsClosed p = (case p of None \<Rightarrow> True | Some c \<Rightarrow> db c = None)"

text \<open>
  Modelled from the spec: \<^verbatim>\<open>func (c *Conn) ProgressHandler(f, numOps, udp)\<close> is called by
  \<^verbatim>\<open>driver.go\<close> and defined outside the two files. The spec: a connection holds at most
  one active registration per hook kind, each hook replaces the previous one, there is no
  chaining, and the hook is uninstalled by resetting it to none. A nil callback is \<open>None\<close>.
\<close>

definition Conn_ProgressHandler ::
  "((Context \<Rightarrow> bool) \<Rightarrow> payload \<Rightarrow> bool) option \<Rightarrow> int \<Rightarrow> payload \<Rightarrow> 'e Conn \<Rightarrow> 'e Conn" where
  "Conn_ProgressHandler f n udp c =
     (case f of
        None \<Rightarrow> c\<lparr>progressHandler := None\<rparr>
      | Some g \<Rightarrow> c\<lparr>progressHandler := Some \<lparr>hook_f = g, hook_numOps = n, hook_udp = udp\<rparr>\<rparr>)"

section \<open>driver.go\<close>

text \<open>
  \<^verbatim>\<open>type conn struct { c *Conn }\<close> is the pointer it holds, \<open>'e Conn option\<close>. The other
  structs of the adapter:
\<close>

record stmt =
  stmt_s :: Stmt
  rowsRef :: bool
  pendingClose :: bool

record rowsImpl =
  rows_s :: stmt
  columnNames :: "string list option"
  rows_ctx :: "Context option"

record result =
  result_id :: int
  result_rows :: int

record NamedValue =
  Name :: string
  Ordinal :: int
  Value :: val

record TxOptions =
  Isolation :: int
  ReadOnly :: bool

text \<open>The levels of \<^verbatim>\<open>database/sql\<close> that \<^verbatim>\<open>BeginTx\<close> names.\<close>

abbreviation (input) LevelDefault :: int where "LevelDefault \<equiv> 0"
abbreviation (input) LevelReadUncommitted :: int where "LevelReadUncommitted \<equiv> 1"
abbreviation (input) LevelSerializable :: int where "LevelSerializable \<equiv> 6"

text \<open>A \<^verbatim>\<open>context.Context\<close> that may be nil, stored in an \<^verbatim>\<open>interface{}\<close>.\<close>

definition payload_of :: "Context option \<Rightarrow> payload" where
  "payload_of ctx = (case ctx of None \<Rightarrow> PNil | Some x \<Rightarrow> PContext x)"

text \<open>\<^verbatim>\<open>func (c *Conn) result() driver.Result\<close>\<close>

definition Conn_result :: "'e engine \<Rightarrow> 'e Conn \<Rightarrow> result \<times> 'e Conn" where
  "Conn_result E c =
     (let (i, c1) = Conn_LastInsertRowid E c;
          (rows, c2) = Conn_Changes E c1
      in (\<lparr>result_id = i, result_rows = rows\<rparr>, c2))"

text \<open>
  \<^verbatim>\<open>func progressHandler(p interface{}) bool\<close>; \<open>closed x\<close> says that the \<^verbatim>\<open>Done\<close> channel
  of the context \<open>x\<close> is closed when the \<^verbatim>\<open>select\<close> runs.
\<close>

definition progressHandler_cb :: "(Context \<Rightarrow> bool) \<Rightarrow> payload \<Rightarrow> bool" where
  "progressHandler_cb closed p =
     (case p of
        PContext x \<Rightarrow> (if closed x then True else False)
      | _ \<Rightarrow> False)"

text \<open>\<^verbatim>\<open>func (s *stmt) bind(args []driver.Value) error\<close>, from the index \<open>i\<close> of the loop on.\<close>

fun bind_from :: "'e engine \<Rightarrow> Stmt \<Rightarrow> int \<Rightarrow> val list \<Rightarrow> 'e Conn \<Rightarrow> error option \<times> 'e Conn" where
  "bind_from E s i [] c = (None, c)"
| "bind_from E s i (v # vs) c =
     (case engine_call (C_BindByIndex s (i + 1) v) (BindByIndex E s (i + 1) v) c of
        (Some err, c1) \<Rightarrow> (Some err, c1)
      | (None, c1) \<Rightarrow> bind_from E s (i + 1) vs c1)"

definition stmt_bind :: "'e engine \<Rightarrow> stmt \<Rightarrow> val list \<Rightarrow> 'e Conn \<Rightarrow> error option \<times> 'e Conn" where
  "stmt_bind E st args c = bind_from E (stmt_s st) 0 args c"

text \<open>\<^verbatim>\<open>func (s *stmt) bindNamedValue(args []driver.NamedValue) error\<close>\<close>

fun bindNamedValue_loop ::
  "'e engine \<Rightarrow> Stmt \<Rightarrow> NamedValue list \<Rightarrow> 'e Conn \<Rightarrow> error option \<times> 'e Conn" where
  "bindNamedValue_loop E s [] c = (None, c)"
| "bindNamedValue_loop E s (v # vs) c =
     (if length (Name v) = 0 then
        (case engine_call (C_BindByIndex s (Ordinal v) (Value v)) (BindByIndex E s (Ordinal v) (Value v)) c of
           (Some err, c1) \<Rightarrow> (Some err, c1)
         | (None, c1) \<Rightarrow> bindNamedValue_loop E s vs c1)
      else
        (case engine_call (C_BindParameterIndex s (Name v)) (BindParameterIndex E s (Name v)) c of
           (Inl err, c1) \<Rightarrow> (Some err, c1)
         | (Inr index, c1) \<Rightarrow>
             (case engine_call (C_BindByIndex s index (Value v)) (BindByIndex E s index (Value v)) c1 of
                (Some err, c2) \<Rightarrow> (Some err, c2)
              | (None, c2) \<Rightarrow> bindNamedValue_loop E s vs c2)))"

definition stmt_bindNamedValue ::
  "'e engine \<Rightarrow> stmt \<Rightarrow> NamedValue list \<Rightarrow> 'e Conn \<Rightarrow> error option \<times> 'e Conn" where
  "stmt_bindNamedValue E st args c = bindNamedValue_loop E (stmt_s st) args c"

text \<open>
  \<^verbatim>\<open>func (s *stmt) Query(args []driver.Value) (driver.Rows, error)\<close>. The statement is
  returned beside the result: the method writes \<^verbatim>\<open>s.rowsRef\<close>.
\<close>

definition stmt_Query ::
  "'e engine \<Rightarrow> val list \<Rightarrow> stmt \<Rightarrow> 'e Conn \<Rightarrow> (error + rowsImpl) \<times> stmt \<times> 'e Conn" where
  "stmt_Query E args st c =
     (if rowsRef st then (Inl (ErrorString ''previously returned Rows still not closed''), st, c)
      else
        (case stmt_bind E st args c of
           (Some err, c1) \<Rightarrow> (Inl err, st, c1)
         | (None, c1) \<Rightarrow>
             (let st1 = st\<lparr>rowsRef := True\<rparr>
              in (Inr \<lparr>rows_s = st1, columnNames = None, rows_ctx = None\<rparr>, st1, c1))))"

text \<open>\<^verbatim>\<open>func (s *stmt) QueryContext(ctx context.Context, args []driver.NamedValue) (driver.Rows, error)\<close>\<close>

definition stmt_QueryContext ::
  "'e engine \<Rightarrow> Context option \<Rightarrow> NamedValue list \<Rightarrow> stmt \<Rightarrow> 'e Conn
     \<Rightarrow> (error + rowsImpl) \<times> stmt \<times> 'e Conn" where
  "stmt_QueryContext E ctx args st c =
     (case stmt_bindNamedValue E st args c of
        (Some err, c1) \<Rightarrow> (Inl err, st, c1)
      | (None, c1) \<Rightarrow>
          (let st1 = st\<lparr>rowsRef := True\<rparr>
           in (Inr \<lparr>rows_s = st1, columnNames = None, rows_ctx = ctx\<rparr>, st1, c1)))"

text \<open>
  \<^verbatim>\<open>func (s *stmt) ExecContext(ctx context.Context, args []driver.NamedValue) (driver.Result, error)\<close>.
  The deferred \<^verbatim>\<open>ProgressHandler(nil, 0, nil)\<close> runs last, on both ways out of the step.
\<close>

definition stmt_ExecContext ::
  "'e engine \<Rightarrow> Context option \<Rightarrow> NamedValue list \<Rightarrow> stmt \<Rightarrow> 'e Conn \<Rightarrow> (error + result) \<times> 'e Conn" where
  "stmt_ExecContext E ctx args st c =
     (case stmt_bindNamedValue E st args c of
        (Some err, c1) \<Rightarrow> (Inl err, c1)
      | (None, c1) \<Rightarrow>
          (let c2 = Conn_ProgressHandler (Some progressHandler_cb) 100 (payload_of ctx) c1;
               (err, c3) = engine_call (C_Stmt_exec (stmt_s st))
                             (Stmt_exec E (stmt_s st) (progressHandler c2)) c2;
               (r, c4) = (case err of
                            Some e \<Rightarrow> (Inl e, c3)
                          | None \<Rightarrow> (let (res, c') = Conn_result E c3 in (Inr res, c')))
           in (r, Conn_ProgressHandler None 0 PNil c4)))"

text \<open>The loop of \<^verbatim>\<open>Next\<close> that fills \<open>dest\<close>, from the index \<open>i\<close> on.\<close>

fun scan_from :: "'e engine \<Rightarrow> Stmt \<Rightarrow> int \<Rightarrow> val list \<Rightarrow> 'e Conn \<Rightarrow> val list \<times> 'e Conn" where
  "scan_from E s i [] c = ([], c)"
| "scan_from E s i (d # ds) c =
     (let (v, c1) = engine_read (C_ScanValue s i) (ScanValue E s i True) c;
          (vs, c2) = scan_from E s (i + 1) ds c1
      in (v # vs, c2))"

text \<open>
  \<^verbatim>\<open>func (r *rowsImpl) Next(dest []driver.Value) error\<close>; the slice \<open>dest\<close> is returned
  as the call leaves it.
\<close>

definition rowsImpl_Next ::
  "'e engine \<Rightarrow> rowsImpl \<Rightarrow> val list \<Rightarrow> 'e Conn \<Rightarrow> error option \<times> val list \<times> 'e Conn" where
  "rowsImpl_Next E r dest c =
     (let s = stmt_s (rows_s r);
          c1 = (if rows_ctx r \<noteq> None
                then Conn_ProgressHandler (Some progressHandler_cb) 100 (payload_of (rows_ctx r)) c
                else c);
          ((ok, err), c2) = engine_call (C_Stmt_Next s) (Stmt_Next E s (progressHandler c1)) c1;
          (res, dest2, c3) =
            (if err \<noteq> None then (err, dest, c2)
             else if \<not> ok then (Some EOF, dest, c2)
             else (let (vs, c') = scan_from E s 0 dest c2 in (None, vs, c')))
      in (res, dest2, if rows_ctx r \<noteq> None then Conn_ProgressHandler None 0 PNil c3 else c3))"

text \<open>
  \<^verbatim>\<open>func (c *conn) Exec(query string, args []driver.Value) (driver.Result, error)\<close>.
  Past the test of \<^verbatim>\<open>IsClosed\<close> the pointer \<^verbatim>\<open>c.c\<close> is not nil.
\<close>

definition conn_Exec ::
  "'e engine \<Rightarrow> string \<Rightarrow> val list \<Rightarrow> 'e Conn option \<Rightarrow> ((error + result) \<times> 'e Conn option) option" where
  "conn_Exec E query args p =
     (if Conn_IsClosed p then Some (Inl ErrBadConn, p)
      else
        (let c = the p
         in if length args = 0 then
              (if query = ''unwrap'' then
                 Some (Inl (ConnErrorValue \<lparr>code = 0, msg = [], details = []\<rparr>), p)
               else
                 (case Conn_FastExec E query c of
                    (Some err, c1) \<Rightarrow> Some (Inl err, Some c1)
                  | (None, c1) \<Rightarrow> (let (res, c2) = Conn_result E c1 in Some (Inr res, Some c2))))
            else
              Option.bind (Conn_Exec E query args c)
                (\<lambda>(r, c1). case r of
                     Some err \<Rightarrow> Some (Inl err, Some c1)
                   | None \<Rightarrow> (let (res, c2) = Conn_result E c1 in Some (Inr res, Some c2)))))"

text \<open>\<^verbatim>\<open>func (c *conn) Ping(ctx context.Context) error\<close>\<close>

definition conn_Ping ::
  "'e engine \<Rightarrow> Context option \<Rightarrow> 'e Conn option \<Rightarrow> (error option \<times> 'e Conn option) option" where
  "conn_Ping E ctx p =
     (if Conn_IsClosed p then Some (Some ErrBadConn, p)
      else
        Option.bind (conn_Exec E ''PRAGMA schema_verion'' [] p)
          (\<lambda>(r, p1). Some (case r of Inl err \<Rightarrow> Some err | Inr _ \<Rightarrow> None, p1)))"

text \<open>\<^verbatim>\<open>func (c *conn) Prepare(query string) (driver.Stmt, error)\<close> and \<^verbatim>\<open>PrepareContext\<close>\<close>

definition conn_Prepare ::
  "'e engine \<Rightarrow> string \<Rightarrow> 'e Conn option \<Rightarrow> (error + stmt) \<times> 'e Conn option" where
  "conn_Prepare E query p =
     (if Conn_IsClosed p then (Inl ErrBadConn, p)
      else
        (case engine_call (C_Prepare query) (Prepare E query) (the p) of
           (Inl err, c1) \<Rightarrow> (Inl err, Some c1)
         | (Inr s, c1) \<Rightarrow> (Inr \<lparr>stmt_s = s, rowsRef = False, pendingClose = False\<rparr>, Some c1)))"

definition conn_PrepareContext ::
  "'e engine \<Rightarrow> Context option \<Rightarrow> string \<Rightarrow> 'e Conn option \<Rightarrow> (error + stmt) \<times> 'e Conn option" where
  "conn_PrepareContext E ctx query p = conn_Prepare E query p"

text \<open>\<^verbatim>\<open>func (c *conn) QueryContext(ctx, query, args) (driver.Rows, error)\<close>\<close>

definition conn_QueryContext ::
  "'e engine \<Rightarrow> Context option \<Rightarrow> string \<Rightarrow> NamedValue list \<Rightarrow> 'e Conn option
     \<Rightarrow> (error + rowsImpl) \<times> 'e Conn option" where
  "conn_QueryContext E ctx query args p =
     (if Conn_IsClosed p then (Inl ErrBadConn, p)
      else
        (case engine_call (C_Prepare query) (Prepare E query) (the p) of
           (Inl err, c1) \<Rightarrow> (Inl err, Some c1)
         | (Inr s, c1) \<Rightarrow>
             (let st = \<lparr>stmt_s = s, rowsRef = False, pendingClose = False\<rparr>;
                  (r, _, c2) = stmt_QueryContext E ctx args st c1
              in (r, Some c2))))"

text \<open>\<^verbatim>\<open>func (c *conn) ExecContext(ctx, query, args) (driver.Result, error)\<close>\<close>

definition conn_ExecContext ::
  "'e engine \<Rightarrow> Context option \<Rightarrow> string \<Rightarrow> NamedValue list \<Rightarrow> 'e Conn option
     \<Rightarrow> (error + result) \<times> 'e Conn option" where
  "conn_ExecContext E ctx query args p =
     (if Conn_IsClosed p then (Inl ErrBadConn, p)
      else
        (case engine_call (C_Prepare query) (Prepare E query) (the p) of
           (Inl err, c1) \<Rightarrow> (Inl err, Some c1)
         | (Inr s, c1) \<Rightarrow>
             (let st = \<lparr>stmt_s = s, rowsRef = False, pendingClose = False\<rparr>;
                  (r, c2) = stmt_ExecContext E ctx args st c1
              in (r, Some c2))))"

text \<open>
  \<^verbatim>\<open>func (c *conn) Begin() (driver.Tx, error)\<close>; the transaction returned is the
  connection itself, so a success is \<open>Inr ()\<close>.
\<close>

definition conn_Begin ::
  "'e engine \<Rightarrow> 'e Conn option \<Rightarrow> (error + unit) outcome \<times> 'e Conn option" where
  "conn_Begin E p =
     (if Conn_IsClosed p then (Return (Inl ErrBadConn), p)
      else
        (case Conn_Begin E (the p) of
           (Panic m, c1) \<Rightarrow> (Panic m, Some c1)
         | (Return (Some err), c1) \<Rightarrow> (Return (Inl err), Some c1)
         | (Return None, c1) \<Rightarrow> (Return (Inr ()), Some c1)))"

text \<open>\<^verbatim>\<open>func (c *conn) BeginTx(ctx context.Context, opts driver.TxOptions) (driver.Tx, error)\<close>\<close>

definition conn_BeginTx ::
  "'e engine \<Rightarrow> Context option \<Rightarrow> TxOptions \<Rightarrow> 'e Conn option
     \<Rightarrow> (error + unit) outcome \<times> 'e Conn option" where
  "conn_BeginTx E ctx opts p =
     (if Conn_IsClosed p then (Return (Inl ErrBadConn), p)
      else
        (let (ac, c1) = Conn_GetAutocommit E (the p)
         in if \<not> ac then (Return (Inl (ErrorString ''Nested transcations are not supported'')), Some c1)
            else
              (case engine_call (C_SetQueryOnly [] (ReadOnly opts)) (SetQueryOnly E [] (ReadOnly opts)) c1 of
                 (Some err, c2) \<Rightarrow> (Return (Inl err), Some c2)
               | (None, c2) \<Rightarrow>
                   if Isolation opts = LevelDefault \<or> Isolation opts = LevelSerializable then
                     (case Conn_FastExec E ''PRAGMA read_uncommitted=0'' c2 of
                        (Some err, c3) \<Rightarrow> (Return (Inl err), Some c3)
                      | (None, c3) \<Rightarrow> conn_Begin E (Some c3))
                   else if Isolation opts = LevelReadUncommitted then
                     (case Conn_FastExec E ''PRAGMA read_uncommitted=1'' c2 of
                        (Some err, c3) \<Rightarrow> (Return (Inl err), Some c3)
                      | (None, c3) \<Rightarrow> conn_Begin E (Some c3))
                   else
                     (Return (Inl (ErrorString (''Isolation level '' @ Itoa (Isolation opts)
                                                  @ '' is not supported.''))), Some c2))))"

section \<open>A small engine for concrete runs\<close>

text \<open>
  An engine simple enough to run by hand: it rejects the SQL texts listed in
  \<open>toy_reject\<close> with \<^verbatim>\<open>SQLITE_ERROR\<close>, when they are executed and when they are prepared, leaves autocommit mode on the three \<^verbatim>\<open>BEGIN\<close>
  statements and returns to it on \<^verbatim>\<open>COMMIT\<close> and \<^verbatim>\<open>ROLLBACK\<close>, reports a fixed number
  of changed rows and a fixed last rowid, and interrupts a step when the registered
  progress callback asks for it. \<open>toy_closed\<close> lists the contexts whose \<^verbatim>\<open>Done\<close> channel
  is closed.
\<close>

record toy =
  toy_autocommit :: bool
  toy_reject :: "string list"
  toy_changes :: int
  toy_rowid :: int
  toy_closed :: "Context list"
  toy_query_only :: bool

definition toy_exec :: "handle option \<Rightarrow> string \<Rightarrow> toy \<Rightarrow> int \<times> toy" where
  "toy_exec h sql w =
     (if h = None then (21, w)
      else if sql \<in> set (toy_reject w) then (1, w)
      else if sql \<in> {''BEGIN'', ''BEGIN IMMEDIATE'', ''BEGIN EXCLUSIVE''} then (0, w\<lparr>toy_autocommit := False\<rparr>)
      else if sql \<in> {''COMMIT'', ''ROLLBACK''} then (0, w\<lparr>toy_autocommit := True\<rparr>)
      else (0, w))"

definition toy_quote :: "string \<Rightarrow> string" where
  "toy_quote a = [CHR 0x27] @ concat (map (\<lambda>ch. if ch = CHR 0x27 then [ch, ch] else [ch]) a) @ [CHR 0x27]"

definition toy_Mprintf :: "string \<Rightarrow> string \<Rightarrow> string" where
  "toy_Mprintf format a = take (length format - 2) format @ toy_quote a"

definition toy_stmt :: Stmt where
  "toy_stmt = \<lparr>Stmt_id = 1, Stmt_stmt = Some 1, Stmt_tail = []\<rparr>"

definition toy_Prepare :: "string \<Rightarrow> toy \<Rightarrow> (error + Stmt) \<times> toy" where
  "toy_Prepare q w =
     (if q \<in> set (toy_reject w)
      then (Inl (ConnErrorValue \<lparr>code = 1, msg = ''SQL logic error'', details = []\<rparr>), w)
      else (Inr toy_stmt, w))"

definition toy_step :: "progress_hook option \<Rightarrow> toy \<Rightarrow> error option" where
  "toy_step hook w =
     (case hook of
        None \<Rightarrow> None
      | Some h \<Rightarrow>
          if hook_f h (\<lambda>x. x \<in> set (toy_closed w)) (hook_udp h)
          then Some (ConnErrorValue \<lparr>code = 9, msg = ''interrupted'', details = []\<rparr>)
          else None)"

definition toy_engine :: "toy engine" where
  "toy_engine =
     \<lparr>sqlite3_exec = toy_exec,
      sqlite3_errmsg = (\<lambda>h w. ''SQL logic error''),
      sqlite3_errstr = (\<lambda>rv. if rv = 1 then ''SQL logic error'' else []),
      sqlite3_get_autocommit = (\<lambda>h w. if toy_autocommit w then 1 else 0),
      sqlite3_close = (\<lambda>h w. (0, w)),
      sqlite3_next_stmt = (\<lambda>h w. None),
      sqlite3_stmt_busy = (\<lambda>h w. 0),
      sqlite3_sql = (\<lambda>h w. []),
      sqlite3_finalize = (\<lambda>h w. w),
      sqlite3_last_insert_rowid = (\<lambda>h w. toy_rowid w),
      sqlite3_changes = (\<lambda>h w. toy_changes w),
      Mprintf = toy_Mprintf,
      cache_flush = (\<lambda>w. w),
      SetQueryOnly = (\<lambda>name on w. (None, w\<lparr>toy_query_only := on\<rparr>)),
      Prepare = toy_Prepare,
      prepare = toy_Prepare,
      BindParameterCount = (\<lambda>s w. 0),
      BindParameterIndex = (\<lambda>s n w. (Inr 1, w)),
      BindByIndex = (\<lambda>s i v w. (None, w)),
      Stmt_Exec = (\<lambda>s vs w. (None, w)),
      Stmt_ExecDml = (\<lambda>s vs w. ((toy_changes w, None), w)),
      Stmt_exec = (\<lambda>s hook w. (toy_step hook w, w)),
      Stmt_Next = (\<lambda>s hook w. ((False, toy_step hook w), w)),
      ScanValue = (\<lambda>s i b w. VNull),
      Stmt_finalize = (\<lambda>s w. (None, w)),
      Stmt_Finalize = (\<lambda>s w. (None, w))\<rparr>"

definition toy_world :: toy where
  "toy_world =
     \<lparr>toy_autocommit = True, toy_reject = [], toy_changes = 0, toy_rowid = 7,
      toy_closed = [], toy_query_only = False\<rparr>"

text \<open>An open connection on the small engine, outside any transaction.\<close>

definition toy_conn :: "toy Conn" where
  "toy_conn = \<lparr>db = Some 1, progressHandler = None, nTransaction = 0, world = toy_world, calls = []\<rparr>"

text \<open>A connection of the small engine inside a transaction, and one whose \<^verbatim>\<open>COMMIT\<close> is rejected.\<close>

definition toy_conn_in_tx :: "string list \<Rightarrow> toy Conn" where
  "toy_conn_in_tx rejected = toy_conn\<lparr>world := toy_world\<lparr>toy_autocommit := False, toy_reject := rejected\<rparr>\<rparr>"

definition toy_conn_rejecting :: "string list \<Rightarrow> toy Conn" where
  "toy_conn_rejecting rejected = toy_conn\<lparr>world := toy_world\<lparr>toy_reject := rejected\<rparr>\<rparr>"

text \<open>
  A body that runs one statement and returns its error, as
  \<^verbatim>\<open>func(c *Conn) error { return c.FastExec("INSERT INTO t VALUES (1)") }\<close> does, and a
  connection that is one transaction deep and whose engine rejects that statement.
\<close>

definition toy_insert_body :: "toy Conn \<Rightarrow> error option outcome \<times> toy Conn" where
  "toy_insert_body c =
     (let (e, c1) = Conn_FastExec toy_engine ''INSERT INTO t VALUES (1)'' c in (Return e, c1))"

definition toy_conn_depth1 :: "toy Conn" where
  "toy_conn_depth1 = (toy_conn_in_tx [''INSERT INTO t VALUES (1)''])\<lparr>nTransaction := 1\<rparr>"

text \<open>
  The inputs of the driver runs: a statement with no open \<^verbatim>\<open>Rows\<close> and one with an open
  \<^verbatim>\<open>Rows\<close>, a \<^verbatim>\<open>Rows\<close> with a context, a connection on which the context 1 is cancelled,
  and the connection after \<^verbatim>\<open>Close\<close>.
\<close>

definition toy_st :: stmt where
  "toy_st = \<lparr>stmt_s = toy_stmt, rowsRef = False, pendingClose = False\<rparr>"

definition toy_st_rows_open :: stmt where
  "toy_st_rows_open = \<lparr>stmt_s = toy_stmt, rowsRef = True, pendingClose = False\<rparr>"

definition toy_rows :: rowsImpl where
  "toy_rows = \<lparr>rows_s = toy_st_rows_open, columnNames = None, rows_ctx = Some 1\<rparr>"

definition toy_conn_cancelled :: "toy Conn" where
  "toy_conn_cancelled = toy_conn\<lparr>world := toy_world\<lparr>toy_closed := [1]\<rparr>\<rparr>"

definition toy_conn_closed :: "toy Conn" where
  "toy_conn_closed = toy_conn\<lparr>db := None, calls := [C_cache_flush, C_close]\<rparr>"

section \<open>What the calls leave unchanged\<close>

lemma engine_call_frame [simp]:
  "db (snd (engine_call k g c)) = db c"
  "progressHandler (snd (engine_call k g c)) = progressHandler c"
  "nTransaction (snd (engine_call k g c)) = nTransaction c"
  "calls (snd (engine_call k g c)) = calls c @ [k]"
  by (simp_all add: engine_call_def split: prod.splits)

lemma engine_read_frame [simp]:
  "db (snd (engine_read k g c)) = db c"
  "progressHandler (snd (engine_read k g c)) = progressHandler c"
  "nTransaction (snd (engine_read k g c)) = nTransaction c"
  "world (snd (engine_read k g c)) = world c"
  "calls (snd (engine_read k g c)) = calls c @ [k]"
  "fst (engine_read k g c) = g (world c)"
  by (simp_all add: engine_read_def)

lemma Conn_error_frame [simp]:
  "db (snd (Conn_error E rv ds c)) = db c"
  "progressHandler (snd (Conn_error E rv ds c)) = progressHandler c"
  "nTransaction (snd (Conn_error E rv ds c)) = nTransaction c"
  "world (snd (Conn_error E rv ds c)) = world c"
  "calls (snd (Conn_error E rv ds c)) = calls c @ (if rv = 0 then [] else [C_errmsg])"
  by (simp_all add: Conn_error_def Let_def engine_read_def split: prod.splits)

lemma Conn_error_result: "fst (Conn_error E rv ds c) = None \<longleftrightarrow> rv = 0"
  by (simp add: Conn_error_def Let_def split: prod.splits)

lemma Conn_FastExec_frame [simp]:
  "db (snd (Conn_FastExec E q c)) = db c"
  "progressHandler (snd (Conn_FastExec E q c)) = progressHandler c"
  "nTransaction (snd (Conn_FastExec E q c)) = nTransaction c"
  by (simp_all add: Conn_FastExec_def split: prod.splits) (simp_all add: engine_call_def split: prod.splits)

lemma Conn_FastExec_calls:
  "calls (snd (Conn_FastExec E q c)) =
     calls c @ C_exec q # (if fst (Conn_FastExec E q c) = None then [] else [C_errmsg])"
  by (simp add: Conn_FastExec_def engine_call_def Conn_error_result split: prod.splits)

lemma Conn_FastExec_issued [simp]: "issued (snd (Conn_FastExec E q c)) = issued c @ [q]"
  by (simp add: issued_def Conn_FastExec_calls)

lemma Conn_GetAutocommit_frame [simp]:
  "db (snd (Conn_GetAutocommit E c)) = db c"
  "progressHandler (snd (Conn_GetAutocommit E c)) = progressHandler c"
  "nTransaction (snd (Conn_GetAutocommit E c)) = nTransaction c"
  "world (snd (Conn_GetAutocommit E c)) = world c"
  "calls (snd (Conn_GetAutocommit E c)) = calls c @ [C_get_autocommit]"
  by (simp_all add: Conn_GetAutocommit_def engine_read_def)

lemma Conn_GetAutocommit_issued [simp]: "issued (snd (Conn_GetAutocommit E c)) = issued c"
  by (simp add: issued_def)

lemma Conn_Rollback_frame [simp]:
  "db (snd (Conn_Rollback E c)) = db c"
  "progressHandler (snd (Conn_Rollback E c)) = progressHandler c"
  "nTransaction (snd (Conn_Rollback E c)) = nTransaction c"
  "issued (snd (Conn_Rollback E c)) = issued c @ [''ROLLBACK'']"
  by (simp_all add: Conn_Rollback_def)

lemma toy_conn_simps [simp]:
  "db toy_conn = Some 1" "calls toy_conn = []" "world toy_conn = toy_world"
  "nTransaction toy_conn = 0" "progressHandler toy_conn = None"
  by (simp_all add: toy_conn_def)

lemma issued_toy_conn [simp]: "issued toy_conn = []"
  by (simp add: issued_def)

lemma issued_update [simp]:
  "issued (c\<lparr>nTransaction := n\<rparr>) = issued c"
  "issued (c\<lparr>progressHandler := h\<rparr>) = issued c"
  "issued (c\<lparr>db := d\<rparr>) = issued c"
  "issued (c\<lparr>world := w\<rparr>) = issued c"
  by (simp_all add: issued_def)

lemma Log_frame [simp]:
  "db (Log n m c) = db c"
  "progressHandler (Log n m c) = progressHandler c"
  "nTransaction (Log n m c) = nTransaction c"
  "world (Log n m c) = world c"
  "calls (Log n m c) = calls c @ [C_Log n m]"
  by (simp_all add: Log_def)

lemma Log_issued [simp]: "issued (Log n m c) = issued c"
  by (simp add: issued_def)

lemma Conn_Savepoint_frame [simp]:
  "db (snd (Conn_Savepoint E name c)) = db c"
  "progressHandler (snd (Conn_Savepoint E name c)) = progressHandler c"
  "nTransaction (snd (Conn_Savepoint E name c)) = nTransaction c"
  "issued (snd (Conn_Savepoint E name c)) = issued c @ [Mprintf E ''SAVEPOINT %Q'' name]"
  by (simp_all add: Conn_Savepoint_def)

lemma Conn_ReleaseSavepoint_frame [simp]:
  "db (snd (Conn_ReleaseSavepoint E name c)) = db c"
  "progressHandler (snd (Conn_ReleaseSavepoint E name c)) = progressHandler c"
  "nTransaction (snd (Conn_ReleaseSavepoint E name c)) = nTransaction c"
  "issued (snd (Conn_ReleaseSavepoint E name c)) = issued c @ [Mprintf E ''RELEASE %Q'' name]"
  by (simp_all add: Conn_ReleaseSavepoint_def)

lemma Conn_RollbackSavepoint_frame [simp]:
  "db (snd (Conn_RollbackSavepoint E name c)) = db c"
  "progressHandler (snd (Conn_RollbackSavepoint E name c)) = progressHandler c"
  "nTransaction (snd (Conn_RollbackSavepoint E name c)) = nTransaction c"
  "issued (snd (Conn_RollbackSavepoint E name c)) = issued c @ [Mprintf E ''ROLLBACK TO SAVEPOINT %Q'' name]"
  by (simp_all add: Conn_RollbackSavepoint_def)

lemma Conn_Commit_frame [simp]:
  "db (snd (Conn_Commit E c)) = db c"
  "progressHandler (snd (Conn_Commit E c)) = progressHandler c"
  "nTransaction (snd (Conn_Commit E c)) = nTransaction c"
  by (simp_all add: Conn_Commit_def case_prod_beta Let_def)

lemma Conn_BeginTransaction_frame [simp]:
  "db (snd (Conn_BeginTransaction E t c)) = db c"
  "progressHandler (snd (Conn_BeginTransaction E t c)) = progressHandler c"
  "nTransaction (snd (Conn_BeginTransaction E t c)) = nTransaction c"
  by (simp_all add: Conn_BeginTransaction_def case_prod_beta Let_def)

lemma Transaction_deferred_frame [simp]:
  "db (Transaction_deferred E err c) = db c"
  "progressHandler (Transaction_deferred E err c) = progressHandler c"
  "nTransaction (Transaction_deferred E err c) = nTransaction c - 1"
  by (simp_all add: Transaction_deferred_def case_prod_beta Let_def split: option.splits)

lemma Transaction_begin_frame [simp]:
  "db (snd (Transaction_begin E t c)) = db c"
  "progressHandler (snd (Transaction_begin E t c)) = progressHandler c"
  "nTransaction (snd (Transaction_begin E t c)) = nTransaction c"
  by (simp_all add: Transaction_begin_def case_prod_beta Let_def)

section \<open>Starting a transaction\<close>

text \<open>
  Claim C9. \<^verbatim>\<open>Conn.BeginTransaction(t)\<close> sends exactly \<^verbatim>\<open>BEGIN\<close> for \<open>Deferred\<close>,
  \<^verbatim>\<open>BEGIN IMMEDIATE\<close> for \<open>Immediate\<close> and \<^verbatim>\<open>BEGIN EXCLUSIVE\<close> for \<open>Exclusive\<close>, and returns
  what that statement returns; for every other value of \<open>t\<close> it panics, with the
  connection as it was, and it does not panic for the three values.
\<close>

theorem BeginTransaction_statement_or_panic:
  "(t = Deferred \<longrightarrow>
      fst (Conn_BeginTransaction E t c) = Return (fst (Conn_FastExec E ''BEGIN'' c)) \<and>
      issued (snd (Conn_BeginTransaction E t c)) = issued c @ [''BEGIN'']) \<and>
   (t = Immediate \<longrightarrow>
      fst (Conn_BeginTransaction E t c) = Return (fst (Conn_FastExec E ''BEGIN IMMEDIATE'' c)) \<and>
      issued (snd (Conn_BeginTransaction E t c)) = issued c @ [''BEGIN IMMEDIATE'']) \<and>
   (t = Exclusive \<longrightarrow>
      fst (Conn_BeginTransaction E t c) = Return (fst (Conn_FastExec E ''BEGIN EXCLUSIVE'' c)) \<and>
      issued (snd (Conn_BeginTransaction E t c)) = issued c @ [''BEGIN EXCLUSIVE'']) \<and>
   (t \<noteq> Deferred \<and> t \<noteq> Immediate \<and> t \<noteq> Exclusive \<longrightarrow>
      (\<exists>m. Conn_BeginTransaction E t c = (Panic m, c)))"
  by (simp add: Conn_BeginTransaction_def case_prod_beta)

theorem BeginTransaction_statement_or_panic_witness:
  "issued (snd (Conn_BeginTransaction toy_engine Deferred toy_conn)) = [''BEGIN''] \<and>
   issued (snd (Conn_BeginTransaction toy_engine Immediate toy_conn)) = [''BEGIN IMMEDIATE''] \<and>
   issued (snd (Conn_BeginTransaction toy_engine Exclusive toy_conn)) = [''BEGIN EXCLUSIVE''] \<and>
   (\<exists>m. Conn_BeginTransaction toy_engine 3 toy_conn = (Panic m, toy_conn))"
  using BeginTransaction_statement_or_panic [of Deferred toy_engine toy_conn]
        BeginTransaction_statement_or_panic [of Immediate toy_engine toy_conn]
        BeginTransaction_statement_or_panic [of Exclusive toy_engine toy_conn]
        BeginTransaction_statement_or_panic [of 3 toy_engine toy_conn]
  by simp

section \<open>Commit\<close>

text \<open>
  Claim C2. When the \<^verbatim>\<open>COMMIT\<close> of \<^verbatim>\<open>Conn.Commit\<close> fails with an error \<open>e\<close>, the call
  returns \<open>e\<close>, whatever the rollback does; if the connection is not back in autocommit
  mode after the failed \<^verbatim>\<open>COMMIT\<close>, a \<^verbatim>\<open>ROLLBACK\<close> is sent after it, and if it is back in
  autocommit mode, nothing is sent after the \<^verbatim>\<open>COMMIT\<close>.
\<close>

theorem Commit_failure_rolls_back:
  assumes "fst (Conn_FastExec E ''COMMIT'' c) = Some e"
  shows "fst (Conn_Commit E c) = Some e \<and>
         (\<not> fst (Conn_GetAutocommit E (snd (Conn_FastExec E ''COMMIT'' c))) \<longrightarrow>
            issued (snd (Conn_Commit E c)) = issued c @ [''COMMIT'', ''ROLLBACK'']) \<and>
         (fst (Conn_GetAutocommit E (snd (Conn_FastExec E ''COMMIT'' c))) \<longrightarrow>
            issued (snd (Conn_Commit E c)) = issued c @ [''COMMIT''])"
  using assms by (simp add: Conn_Commit_def case_prod_beta Let_def)

lemma toy_FastExec_rejected:
  "q \<in> set rejected \<Longrightarrow>
   fst (Conn_FastExec toy_engine q (toy_conn\<lparr>world := toy_world\<lparr>toy_autocommit := a, toy_reject := rejected\<rparr>\<rparr>))
     = Some (ConnErrorValue \<lparr>code = 1, msg = ''SQL logic error'', details = []\<rparr>) \<and>
   world (snd (Conn_FastExec toy_engine q (toy_conn\<lparr>world := toy_world\<lparr>toy_autocommit := a, toy_reject := rejected\<rparr>\<rparr>)))
     = toy_world\<lparr>toy_autocommit := a, toy_reject := rejected\<rparr>"
  by (simp add: Conn_FastExec_def Conn_error_def engine_call_def engine_read_def toy_engine_def toy_exec_def)

theorem Commit_failure_rolls_back_witness:
  "fst (Conn_Commit toy_engine (toy_conn_in_tx [''COMMIT'']))
     = Some (ConnErrorValue \<lparr>code = 1, msg = ''SQL logic error'', details = []\<rparr>) \<and>
   issued (snd (Conn_Commit toy_engine (toy_conn_in_tx [''COMMIT'']))) = [''COMMIT'', ''ROLLBACK''] \<and>
   fst (Conn_Commit toy_engine (toy_conn_rejecting [''COMMIT'']))
     = Some (ConnErrorValue \<lparr>code = 1, msg = ''SQL logic error'', details = []\<rparr>) \<and>
   issued (snd (Conn_Commit toy_engine (toy_conn_rejecting [''COMMIT'']))) = [''COMMIT'']"
  using Commit_failure_rolls_back [where E = toy_engine and c = "toy_conn_in_tx [''COMMIT'']"
          and e = "ConnErrorValue \<lparr>code = 1, msg = ''SQL logic error'', details = []\<rparr>"]
        Commit_failure_rolls_back [where E = toy_engine and c = "toy_conn_rejecting [''COMMIT'']"
          and e = "ConnErrorValue \<lparr>code = 1, msg = ''SQL logic error'', details = []\<rparr>"]
        toy_FastExec_rejected [of "''COMMIT''" "[''COMMIT'']" False]
        toy_FastExec_rejected [of "''COMMIT''" "[''COMMIT'']" True]
  by (simp add: toy_conn_in_tx_def toy_conn_rejecting_def Conn_GetAutocommit_def engine_read_def
        toy_engine_def toy_world_def issued_def)

section \<open>The depth counter of Transaction\<close>

text \<open>
  Claim C1. For every transaction type and every body that leaves the depth counter as it
  found it (the counter is written by \<^verbatim>\<open>Transaction\<close> only, so a body changes it through
  nested calls of \<^verbatim>\<open>Transaction\<close> at most), the counter after \<^verbatim>\<open>Conn.Transaction\<close> is the
  counter before it, whether the body returns nil, returns an error or panics and whatever
  the commit, release and rollback statements return. When the first statement
  (\<^verbatim>\<open>BEGIN\<close> or \<^verbatim>\<open>SAVEPOINT\<close>) fails or panics, the call ends there, with the counter never
  written; when it succeeds, the body runs with the counter one higher, and the call ends
  with the counter one lower than the body left it.
\<close>

theorem Transaction_restores_depth:
  assumes "\<And>c'. nTransaction (snd (f c')) = nTransaction c'"
  shows "nTransaction (snd (Conn_Transaction E t f c)) = nTransaction c \<and>
         (fst (Transaction_begin E t c) \<noteq> Return None \<longrightarrow>
            Conn_Transaction E t f c = Transaction_begin E t c) \<and>
         (fst (Transaction_begin E t c) = Return None \<longrightarrow>
            (\<exists>c2. nTransaction c2 = nTransaction c + 1 \<and>
                  fst (Conn_Transaction E t f c) = fst (f c2) \<and>
                  nTransaction (snd (Conn_Transaction E t f c)) = nTransaction (snd (f c2)) - 1))"
proof -
  let ?b = "Transaction_begin E t c"
  let ?c2 = "(snd ?b)\<lparr>nTransaction := nTransaction (snd ?b) + 1\<rparr>"
  have restored: "nTransaction (snd (Conn_Transaction E t f c)) = nTransaction c"
    using assms
    by (simp add: Conn_Transaction_def case_prod_beta Let_def split: outcome.splits option.splits)
  have failed: "fst ?b \<noteq> Return None \<Longrightarrow> Conn_Transaction E t f c = ?b"
    by (cases ?b) (auto simp: Conn_Transaction_def split: outcome.splits option.splits)
  have body: "fst (Conn_Transaction E t f c) = fst (f ?c2) \<and>
              nTransaction (snd (Conn_Transaction E t f c)) = nTransaction (snd (f ?c2)) - 1"
    if "fst ?b = Return None"
    using that
    by (cases ?b; cases "f ?c2")
       (auto simp: Conn_Transaction_def Let_def split: outcome.splits option.splits)
  have "nTransaction ?c2 = nTransaction c + 1" by simp
  with body have "\<exists>c2. nTransaction c2 = nTransaction c + 1 \<and>
                  fst (Conn_Transaction E t f c) = fst (f c2) \<and>
                  nTransaction (snd (Conn_Transaction E t f c)) = nTransaction (snd (f c2)) - 1"
    if "fst ?b = Return None"
    using that by blast
  with restored failed show ?thesis by blast
qed

lemma toy_insert_body_depth: "nTransaction (snd (toy_insert_body c)) = nTransaction c"
  by (simp add: toy_insert_body_def case_prod_beta)

theorem Transaction_restores_depth_witness:
  "nTransaction (snd (Conn_Transaction toy_engine Deferred (Conn_Transaction toy_engine Deferred toy_insert_body)
                        (toy_conn_rejecting [''INSERT INTO t VALUES (1)''])))
     = nTransaction (toy_conn_rejecting [''INSERT INTO t VALUES (1)'']) \<and>
   nTransaction (toy_conn_rejecting [''INSERT INTO t VALUES (1)'']) = 0 \<and>
   fst (Conn_Transaction toy_engine Deferred (Conn_Transaction toy_engine Deferred toy_insert_body)
          (toy_conn_rejecting [''INSERT INTO t VALUES (1)'']))
     = Return (Some (ConnErrorValue \<lparr>code = 1, msg = ''SQL logic error'', details = []\<rparr>))"
proof -
  have inner: "nTransaction (snd (Conn_Transaction toy_engine Deferred toy_insert_body c')) = nTransaction c'" for c'
    using Transaction_restores_depth [of toy_insert_body toy_engine Deferred c']
    by (simp add: toy_insert_body_depth)
  have outer: "nTransaction (snd (Conn_Transaction toy_engine Deferred (Conn_Transaction toy_engine Deferred toy_insert_body)
                        (toy_conn_rejecting [''INSERT INTO t VALUES (1)''])))
     = nTransaction (toy_conn_rejecting [''INSERT INTO t VALUES (1)''])"
    using Transaction_restores_depth [of "Conn_Transaction toy_engine Deferred toy_insert_body", OF inner]
    by blast
  have zero: "nTransaction (toy_conn_rejecting [''INSERT INTO t VALUES (1)'']) = 0"
    by (simp add: toy_conn_rejecting_def)
  have err: "fst (Conn_Transaction toy_engine Deferred (Conn_Transaction toy_engine Deferred toy_insert_body)
          (toy_conn_rejecting [''INSERT INTO t VALUES (1)'']))
     = Return (Some (ConnErrorValue \<lparr>code = 1, msg = ''SQL logic error'', details = []\<rparr>))"
    by code_simp
  from outer zero err show ?thesis by blast
qed

section \<open>Rollback after a failed body\<close>

text \<open>
  What the deferred function sends when the body has returned the error \<open>e\<close>: a
  \<^verbatim>\<open>ROLLBACK\<close> when the counter is back at 0 or \<open>e\<close> is a \<^verbatim>\<open>*ConnError\<close>; otherwise
  \<^verbatim>\<open>ROLLBACK TO SAVEPOINT\<close> of the depth, and \<^verbatim>\<open>RELEASE\<close> of the depth when that succeeded.
\<close>

lemma Transaction_deferred_error_issued:
  "issued (Transaction_deferred E (Some e) c) =
     issued c @
     (if nTransaction c - 1 = 0 \<or> is_ConnError_pointer e then [''ROLLBACK'']
      else Mprintf E ''ROLLBACK TO SAVEPOINT %Q'' (Itoa (uint (nTransaction c - 1))) #
           (if fst (Conn_RollbackSavepoint E (Itoa (uint (nTransaction c - 1)))
                      (c\<lparr>nTransaction := nTransaction c - 1\<rparr>)) = None
            then [Mprintf E ''RELEASE %Q'' (Itoa (uint (nTransaction c - 1)))] else []))"
  by (simp add: Transaction_deferred_def case_prod_beta Let_def split: option.splits prod.splits)

text \<open>
  Claim C5 says that a body error that is a connection error forces a full \<^verbatim>\<open>ROLLBACK\<close>
  at any depth. The errors the package builds are \<^verbatim>\<open>ConnError\<close> values, and the deferred
  function tests for \<^verbatim>\<open>*ConnError\<close>: one transaction deep, a body that returns the error of
  a failed statement gets the savepoint rolled back and released, and no \<^verbatim>\<open>ROLLBACK\<close>.
\<close>

theorem Transaction_ConnError_value_keeps_savepoint_path:
  "fst (Conn_Transaction toy_engine Deferred toy_insert_body toy_conn_depth1)
     = Return (Some (ConnErrorValue \<lparr>code = 1, msg = ''SQL logic error'', details = []\<rparr>)) \<and>
   issued (snd (Conn_Transaction toy_engine Deferred toy_insert_body toy_conn_depth1))
     = [''SAVEPOINT '' @ toy_quote ''1'', ''INSERT INTO t VALUES (1)'',
        ''ROLLBACK TO SAVEPOINT '' @ toy_quote ''1'', ''RELEASE '' @ toy_quote ''1''] \<and>
   nTransaction (snd (Conn_Transaction toy_engine Deferred toy_insert_body toy_conn_depth1)) = 1"
  by code_simp

section \<open>The progress callback\<close>

text \<open>
  Claim C8. The callback asks for an abort exactly when its payload is a context whose
  \<^verbatim>\<open>Done\<close> channel is closed when it is polled: a payload that is nil or not a context, or
  a context that is not cancelled, never does; and a context cancelled between two polls
  is not seen at the first and is seen at the second.
\<close>

theorem progressHandler_aborts_iff_done:
  "(progressHandler_cb closed p \<longleftrightarrow> (\<exists>x. p = PContext x \<and> closed x)) \<and>
   (\<not> closed_before x \<and> closed_after x \<longrightarrow>
      \<not> progressHandler_cb closed_before (PContext x) \<and> progressHandler_cb closed_after (PContext x))"
  by (cases p) (simp_all add: progressHandler_cb_def)

theorem progressHandler_aborts_iff_done_witness:
  "\<not> progressHandler_cb (\<lambda>x. False) (PContext 1) \<and> progressHandler_cb (\<lambda>x. x = 1) (PContext 1) \<and>
   \<not> progressHandler_cb (\<lambda>x. x = 1) PNil \<and> \<not> progressHandler_cb (\<lambda>x. x = 1) (POther (VInt 1)) \<and>
   \<not> progressHandler_cb (\<lambda>x. x = 1) (PContext 2)"
  using progressHandler_aborts_iff_done [of "\<lambda>x. x = 1" "PContext 1" "\<lambda>x. False" 1]
        progressHandler_aborts_iff_done [of "\<lambda>x. x = 1" PNil "\<lambda>x. False" 1]
        progressHandler_aborts_iff_done [of "\<lambda>x. x = 1" "POther (VInt 1)" "\<lambda>x. False" 1]
        progressHandler_aborts_iff_done [of "\<lambda>x. x = 1" "PContext 2" "\<lambda>x. False" 1]
  by simp

section \<open>Insert\<close>

text \<open>
  Claim C10. \<^verbatim>\<open>Conn.Insert\<close> returns rowid -1 and the error when \<^verbatim>\<open>ExecDml\<close> fails, and
  rowid -1 and no error when it succeeds with no row changed; in both cases the connection
  is as \<^verbatim>\<open>ExecDml\<close> left it, so \<^verbatim>\<open>LastInsertRowid\<close> is not called. When rows were changed,
  it returns the rowid that \<^verbatim>\<open>LastInsertRowid\<close> reads, in one call, after \<^verbatim>\<open>ExecDml\<close>.
\<close>

theorem Insert_rowid:
  "(snd (fst (Conn_ExecDml E cmd args c)) \<noteq> None \<longrightarrow>
      Conn_Insert E cmd args c = ((- 1, snd (fst (Conn_ExecDml E cmd args c))), snd (Conn_ExecDml E cmd args c))) \<and>
   (snd (fst (Conn_ExecDml E cmd args c)) = None \<and> fst (fst (Conn_ExecDml E cmd args c)) = 0 \<longrightarrow>
      Conn_Insert E cmd args c = ((- 1, None), snd (Conn_ExecDml E cmd args c))) \<and>
   (snd (fst (Conn_ExecDml E cmd args c)) = None \<and> fst (fst (Conn_ExecDml E cmd args c)) \<noteq> 0 \<longrightarrow>
      fst (Conn_Insert E cmd args c)
        = (sqlite3_last_insert_rowid E (db c) (world (snd (Conn_ExecDml E cmd args c))), None) \<and>
      calls (snd (Conn_Insert E cmd args c)) = calls (snd (Conn_ExecDml E cmd args c)) @ [C_last_insert_rowid])"
  apply (simp add: Conn_Insert_def case_prod_beta Let_def Conn_LastInsertRowid_def)
  apply (simp add: Conn_ExecDml_def case_prod_beta split: sum.splits prod.splits)
  done

theorem Insert_rowid_witness:
  "Conn_Insert toy_engine ''UPDATE t SET v = 1'' [] toy_conn
     = ((- 1, None), toy_conn\<lparr>calls := [C_Prepare ''UPDATE t SET v = 1'', C_Stmt_ExecDml toy_stmt [], C_Stmt_Finalize toy_stmt]\<rparr>) \<and>
   fst (Conn_Insert toy_engine ''INSERT'' [] (toy_conn\<lparr>world := toy_world\<lparr>toy_changes := 1\<rparr>\<rparr>)) = (7, None) \<and>
   calls (snd (Conn_Insert toy_engine ''INSERT'' [] (toy_conn\<lparr>world := toy_world\<lparr>toy_changes := 1\<rparr>\<rparr>)))
     = [C_Prepare ''INSERT'', C_Stmt_ExecDml toy_stmt [], C_Stmt_Finalize toy_stmt, C_last_insert_rowid] \<and>
   Conn_Insert toy_engine ''INSERT'' [] (toy_conn_rejecting [''INSERT''])
     = ((- 1, Some (ConnErrorValue \<lparr>code = 1, msg = ''SQL logic error'', details = []\<rparr>)),
        (toy_conn_rejecting [''INSERT''])\<lparr>calls := [C_Prepare ''INSERT'']\<rparr>)"
proof -
  have d1: "Conn_ExecDml toy_engine ''UPDATE t SET v = 1'' [] toy_conn
      = ((0, None), toy_conn\<lparr>calls := [C_Prepare ''UPDATE t SET v = 1'', C_Stmt_ExecDml toy_stmt [], C_Stmt_Finalize toy_stmt]\<rparr>)"
    by (simp add: Conn_ExecDml_def engine_call_def toy_engine_def toy_Prepare_def toy_world_def toy_conn_def)
  have d2: "Conn_ExecDml toy_engine ''INSERT'' [] (toy_conn\<lparr>world := toy_world\<lparr>toy_changes := 1\<rparr>\<rparr>)
      = ((1, None), toy_conn\<lparr>world := toy_world\<lparr>toy_changes := 1\<rparr>, calls := [C_Prepare ''INSERT'', C_Stmt_ExecDml toy_stmt [], C_Stmt_Finalize toy_stmt]\<rparr>)"
    by (simp add: Conn_ExecDml_def engine_call_def toy_engine_def toy_Prepare_def toy_world_def toy_conn_def)
  have d3: "Conn_ExecDml toy_engine ''INSERT'' [] (toy_conn_rejecting [''INSERT''])
      = ((- 1, Some (ConnErrorValue \<lparr>code = 1, msg = ''SQL logic error'', details = []\<rparr>)),
         (toy_conn_rejecting [''INSERT''])\<lparr>calls := [C_Prepare ''INSERT'']\<rparr>)"
    by (simp add: Conn_ExecDml_def engine_call_def toy_engine_def toy_Prepare_def toy_world_def toy_conn_def
          toy_conn_rejecting_def)
  show ?thesis
    using Insert_rowid [of toy_engine "''UPDATE t SET v = 1''" "[]" toy_conn]
          Insert_rowid [of toy_engine "''INSERT''" "[]" "toy_conn\<lparr>world := toy_world\<lparr>toy_changes := 1\<rparr>\<rparr>"]
          Insert_rowid [of toy_engine "''INSERT''" "[]" "toy_conn_rejecting [''INSERT'']"]
    unfolding d1 d2 d3
    by (simp add: toy_engine_def toy_world_def)
qed

section \<open>The progress hook around a step\<close>

lemma Conn_ProgressHandler_frame [simp]:
  "db (Conn_ProgressHandler f n u c) = db c"
  "nTransaction (Conn_ProgressHandler f n u c) = nTransaction c"
  "world (Conn_ProgressHandler f n u c) = world c"
  "calls (Conn_ProgressHandler f n u c) = calls c"
  "progressHandler (Conn_ProgressHandler None n u c) = None"
  "progressHandler (Conn_ProgressHandler (Some g) n u c) = Some \<lparr>hook_f = g, hook_numOps = n, hook_udp = u\<rparr>"
  by (simp_all add: Conn_ProgressHandler_def split: option.splits)

lemma engine_call_hookD:
  "engine_call k g c = (r, c1) \<Longrightarrow> progressHandler c1 = progressHandler c"
  using engine_call_frame(2) [of k g c] by simp

lemma bindNamedValue_loop_hook [simp]:
  "progressHandler (snd (bindNamedValue_loop E s args c)) = progressHandler c"
proof (induction args arbitrary: c)
  case Nil
  then show ?case by simp
next
  case (Cons v vs)
  show ?case
    by (auto simp: Cons.IH split: prod.splits option.splits sum.splits dest!: engine_call_hookD)
qed

text \<open>
  Claim C6. \<^verbatim>\<open>stmt.ExecContext\<close> installs the progress hook only when the arguments are
  bound, and whenever it has installed it the registration is none after the call, whether
  the step returns a result or an error (the error of an interrupted step included); so a
  call on a connection with no registration leaves it with none, on every way out. The
  same holds for \<^verbatim>\<open>rowsImpl.Next\<close> with a non-nil context: the registration is none after
  the call.
\<close>

theorem progress_hook_uninstalled:
  "(fst (stmt_bindNamedValue E st args c) = None \<longrightarrow>
      progressHandler (snd (stmt_ExecContext E ctx args st c)) = None) \<and>
   (progressHandler c = None \<longrightarrow> progressHandler (snd (stmt_ExecContext E ctx args st c)) = None) \<and>
   (rows_ctx r \<noteq> None \<longrightarrow> progressHandler (snd (snd (rowsImpl_Next E r dest c))) = None)"
proof -
  have a: "progressHandler (snd (stmt_ExecContext E ctx args st c)) = None"
    if "fst (stmt_bindNamedValue E st args c) = None"
    using that by (cases "stmt_bindNamedValue E st args c")
      (simp add: stmt_ExecContext_def case_prod_beta Let_def)
  have b: "progressHandler (snd (stmt_ExecContext E ctx args st c)) = None"
    if "progressHandler c = None"
  proof (cases "fst (stmt_bindNamedValue E st args c)")
    case None
    then show ?thesis by (rule a)
  next
    case (Some err)
    have "progressHandler (snd (stmt_bindNamedValue E st args c)) = None"
      using that by (simp add: stmt_bindNamedValue_def)
    with Some show ?thesis
      by (cases "stmt_bindNamedValue E st args c") (simp add: stmt_ExecContext_def)
  qed
  have c: "progressHandler (snd (snd (rowsImpl_Next E r dest c))) = None" if "rows_ctx r \<noteq> None"
    using that by (simp add: rowsImpl_Next_def case_prod_beta Let_def)
  from a b c show ?thesis by blast
qed


theorem progress_hook_uninstalled_witness:
  "fst (stmt_ExecContext toy_engine (Some 1) [] toy_st toy_conn_cancelled)
     = Inl (ConnErrorValue \<lparr>code = 9, msg = ''interrupted'', details = []\<rparr>) \<and>
   progressHandler (snd (stmt_ExecContext toy_engine (Some 1) [] toy_st toy_conn_cancelled)) = None \<and>
   fst (stmt_ExecContext toy_engine (Some 1) [] toy_st toy_conn) = Inr \<lparr>result_id = 7, result_rows = 0\<rparr> \<and>
   progressHandler (snd (stmt_ExecContext toy_engine (Some 1) [] toy_st toy_conn)) = None \<and>
   fst (rowsImpl_Next toy_engine toy_rows [] toy_conn_cancelled)
     = Some (ConnErrorValue \<lparr>code = 9, msg = ''interrupted'', details = []\<rparr>) \<and>
   progressHandler (snd (snd (rowsImpl_Next toy_engine toy_rows [] toy_conn_cancelled))) = None"
proof -
  have e1: "fst (stmt_ExecContext toy_engine (Some 1) [] toy_st toy_conn_cancelled)
     = Inl (ConnErrorValue \<lparr>code = 9, msg = ''interrupted'', details = []\<rparr>)"
    by (simp add: stmt_ExecContext_def stmt_bindNamedValue_def engine_call_def toy_engine_def toy_step_def
          progressHandler_cb_def payload_of_def toy_conn_cancelled_def toy_world_def Let_def)
  have e2: "fst (stmt_ExecContext toy_engine (Some 1) [] toy_st toy_conn) = Inr \<lparr>result_id = 7, result_rows = 0\<rparr>"
    by (simp add: stmt_ExecContext_def stmt_bindNamedValue_def engine_call_def engine_read_def toy_engine_def
          toy_step_def progressHandler_cb_def payload_of_def toy_world_def Let_def Conn_result_def
          Conn_LastInsertRowid_def Conn_Changes_def)
  have e3: "fst (rowsImpl_Next toy_engine toy_rows [] toy_conn_cancelled)
     = Some (ConnErrorValue \<lparr>code = 9, msg = ''interrupted'', details = []\<rparr>)"
    by (simp add: rowsImpl_Next_def engine_call_def toy_engine_def toy_step_def toy_rows_def
          progressHandler_cb_def payload_of_def toy_conn_cancelled_def toy_world_def Let_def)
  have b1: "fst (stmt_bindNamedValue toy_engine toy_st [] c) = None" for c :: "toy Conn"
    by (simp add: stmt_bindNamedValue_def)
  have r: "rows_ctx toy_rows \<noteq> None"
    by (simp add: toy_rows_def)
  from progress_hook_uninstalled [of toy_engine toy_st "[]" toy_conn_cancelled "Some 1" toy_rows "[]"]
       progress_hook_uninstalled [of toy_engine toy_st "[]" toy_conn "Some 1" toy_rows "[]"]
       b1 r e1 e2 e3
  show ?thesis by simp
qed

section \<open>Close\<close>

lemma Close_finish_closed:
  "Close_finish E rv c = (None, p) \<Longrightarrow> \<exists>c'. p = Some c' \<and> db c' = None"
  by (cases "rv = 0") (auto simp: Close_finish_def case_prod_beta Let_def Conn_error_result)

lemma Conn_Close_closed:
  assumes "Conn_Close E (Some c) = Some (None, p)"
  shows "\<exists>c'. p = Some c' \<and> db c' = None"
proof (cases "db c = None")
  case True
  with assms show ?thesis by (auto simp: Conn_Close_def)
next
  case False
  with assms obtain rv c5 where "Close_finish E rv c5 = (None, p)"
    by (auto simp: Conn_Close_def case_prod_beta Let_def bind_eq_Some_conv split: if_splits)
  then show ?thesis by (rule Close_finish_closed)
qed

text \<open>
  Claim C7. When \<^verbatim>\<open>Close\<close> on a non-nil connection has returned nil, a second \<^verbatim>\<open>Close\<close>
  returns nil and leaves the connection, its trace of calls included, as it is: no cache
  flush and no native close. \<^verbatim>\<open>IsClosed\<close> is true, and \<^verbatim>\<open>Ping\<close>, \<^verbatim>\<open>Exec\<close>, \<^verbatim>\<open>Prepare\<close>,
  \<^verbatim>\<open>PrepareContext\<close>, \<^verbatim>\<open>QueryContext\<close>, \<^verbatim>\<open>ExecContext\<close>, \<^verbatim>\<open>Begin\<close> and \<^verbatim>\<open>BeginTx\<close> of the adapter
  return \<^verbatim>\<open>driver.ErrBadConn\<close>, again with the connection and its trace unchanged.
\<close>

theorem Close_twice_then_bad_connection:
  assumes "Conn_Close E (Some c) = Some (None, p)"
  shows "Conn_Close E p = Some (None, p) \<and>
         Conn_IsClosed p \<and>
         conn_Ping E ctx p = Some (Some ErrBadConn, p) \<and>
         conn_Exec E q args p = Some (Inl ErrBadConn, p) \<and>
         conn_Prepare E q p = (Inl ErrBadConn, p) \<and>
         conn_PrepareContext E ctx q p = (Inl ErrBadConn, p) \<and>
         conn_QueryContext E ctx q nargs p = (Inl ErrBadConn, p) \<and>
         conn_ExecContext E ctx q nargs p = (Inl ErrBadConn, p) \<and>
         conn_Begin E p = (Return (Inl ErrBadConn), p) \<and>
         conn_BeginTx E ctx opts p = (Return (Inl ErrBadConn), p)"
proof -
  from Conn_Close_closed [OF assms] obtain c' where p: "p = Some c'" and db: "db c' = None"
    by blast
  have closed: "Conn_IsClosed p"
    by (simp add: p db Conn_IsClosed_def)
  have again: "Conn_Close E p = Some (None, p)"
    by (simp add: p db Conn_Close_def)
  from closed again show ?thesis
    by (simp add: conn_Ping_def conn_Exec_def conn_Prepare_def conn_PrepareContext_def
          conn_QueryContext_def conn_ExecContext_def conn_Begin_def conn_BeginTx_def)
qed


theorem Close_twice_then_bad_connection_witness:
  "Conn_Close toy_engine (Some toy_conn) = Some (None, Some toy_conn_closed) \<and>
   Conn_Close toy_engine (Some toy_conn_closed) = Some (None, Some toy_conn_closed) \<and>
   Conn_IsClosed (Some toy_conn_closed) \<and>
   conn_Ping toy_engine None (Some toy_conn_closed) = Some (Some ErrBadConn, Some toy_conn_closed) \<and>
   conn_Exec toy_engine ''DELETE FROM t'' [] (Some toy_conn_closed) = Some (Inl ErrBadConn, Some toy_conn_closed) \<and>
   conn_Begin toy_engine (Some toy_conn_closed) = (Return (Inl ErrBadConn), Some toy_conn_closed)"
proof -
  have first: "Conn_Close toy_engine (Some toy_conn) = Some (None, Some toy_conn_closed)"
    by (simp add: Conn_Close_def Close_finish_def engine_call_def toy_engine_def toy_conn_def toy_conn_closed_def)
  from Close_twice_then_bad_connection [OF first, of None "''DELETE FROM t''" "[]"] first
  show ?thesis by simp
qed

section \<open>A query while Rows are open\<close>

text \<open>\<^verbatim>\<open>stmt.Query\<close> refuses a statement whose \<^verbatim>\<open>Rows\<close> are open and changes nothing.\<close>

lemma Query_with_open_Rows:
  "rowsRef st \<Longrightarrow>
   stmt_Query E args st c = (Inl (ErrorString ''previously returned Rows still not closed''), st, c)"
  by (simp add: stmt_Query_def)

text \<open>
  Claim C4 says the same of \<^verbatim>\<open>stmt.QueryContext\<close>. That method does not test \<^verbatim>\<open>rowsRef\<close>:
  on a statement whose \<^verbatim>\<open>Rows\<close> are open it binds the arguments and returns a second
  \<^verbatim>\<open>Rows\<close>, with no error.
\<close>

theorem QueryContext_with_open_Rows:
  "stmt_QueryContext toy_engine None [\<lparr>Name = [], Ordinal = 1, Value = VInt 42\<rparr>] toy_st_rows_open toy_conn
     = (Inr \<lparr>rows_s = toy_st_rows_open, columnNames = None, rows_ctx = None\<rparr>,
        toy_st_rows_open,
        toy_conn\<lparr>calls := [C_BindByIndex toy_stmt 1 (VInt 42)]\<rparr>)"
  by (simp add: stmt_QueryContext_def stmt_bindNamedValue_def engine_call_def toy_engine_def
        toy_st_rows_open_def toy_conn_def Let_def)

section \<open>BeginTx with an unsupported isolation level\<close>

text \<open>
  Claim C3 says that an isolation level outside default, serializable and read-uncommitted
  is rejected before anything is done on the connection. \<^verbatim>\<open>BeginTx\<close> calls
  \<^verbatim>\<open>SetQueryOnly\<close> before it looks at the level: with level 2 and \<^verbatim>\<open>ReadOnly\<close> set, the small
  engine is left in query-only mode by the rejected call.
\<close>

theorem BeginTx_unsupported_level_counterexample:
  "fst (conn_BeginTx toy_engine None \<lparr>Isolation = 2, ReadOnly = True\<rparr> (Some toy_conn))
     = Return (Inl (ErrorString ''Isolation level 2 is not supported.'')) \<and>
   snd (conn_BeginTx toy_engine None \<lparr>Isolation = 2, ReadOnly = True\<rparr> (Some toy_conn))
     = Some (toy_conn\<lparr>world := toy_world\<lparr>toy_query_only := True\<rparr>,
                      calls := [C_get_autocommit, C_SetQueryOnly [] True]\<rparr>) \<and>
   toy_world\<lparr>toy_query_only := True\<rparr> \<noteq> toy_world"
  by (simp add: conn_BeginTx_def Conn_IsClosed_def Conn_GetAutocommit_def engine_read_def engine_call_def
        toy_engine_def toy_conn_def toy_world_def Itoa_def nat_to_dec.simps digit_def)

text \<open>
  Claim C3, amended. For an isolation level outside default, serializable and
  read-uncommitted, \<^verbatim>\<open>BeginTx\<close> on an open connection in autocommit mode calls
  \<^verbatim>\<open>SetQueryOnly("", opts.ReadOnly)\<close>; it returns the error of that call when it fails and
  an error naming the level otherwise. The autocommit test and \<^verbatim>\<open>SetQueryOnly\<close> are the
  only calls it makes: it sends no statement of its own, neither a pragma nor \<^verbatim>\<open>BEGIN\<close>.
\<close>

theorem BeginTx_unsupported_level:
  assumes "db c \<noteq> None" and "fst (Conn_GetAutocommit E c)"
    and "Isolation opts \<noteq> LevelDefault" and "Isolation opts \<noteq> LevelSerializable"
    and "Isolation opts \<noteq> LevelReadUncommitted"
  shows "\<exists>c'. conn_BeginTx E ctx opts (Some c)
                = (Return (Inl (case fst (SetQueryOnly E [] (ReadOnly opts) (world c)) of
                                  Some err \<Rightarrow> err
                                | None \<Rightarrow> ErrorString (''Isolation level '' @ Itoa (Isolation opts)
                                                        @ '' is not supported.''))),
                   Some c') \<and>
              calls c' = calls c @ [C_get_autocommit, C_SetQueryOnly [] (ReadOnly opts)] \<and>
              world c' = snd (SetQueryOnly E [] (ReadOnly opts) (world c)) \<and>
              issued c' = issued c"
  using assms
  by (cases "SetQueryOnly E [] (ReadOnly opts) (world c)")
     (auto simp: conn_BeginTx_def Conn_IsClosed_def Conn_GetAutocommit_def engine_read_def engine_call_def
        issued_def split: option.splits)

theorem BeginTx_unsupported_level_witness:
  "fst (conn_BeginTx toy_engine None \<lparr>Isolation = 4, ReadOnly = False\<rparr> (Some toy_conn))
     = Return (Inl (ErrorString ''Isolation level 4 is not supported.'')) \<and>
   map_option calls (snd (conn_BeginTx toy_engine None \<lparr>Isolation = 4, ReadOnly = False\<rparr> (Some toy_conn)))
     = Some [C_get_autocommit, C_SetQueryOnly [] False] \<and>
   map_option issued (snd (conn_BeginTx toy_engine None \<lparr>Isolation = 4, ReadOnly = False\<rparr> (Some toy_conn)))
     = Some []"
proof -
  have ac: "fst (Conn_GetAutocommit toy_engine toy_conn)"
    by (simp add: Conn_GetAutocommit_def engine_read_def toy_engine_def toy_world_def)
  have name: "Itoa 4 = ''4''"
    by (simp add: Itoa_def nat_to_dec.simps digit_def)
  have "\<exists>c'. conn_BeginTx toy_engine None \<lparr>Isolation = 4, ReadOnly = False\<rparr> (Some toy_conn)
               = (Return (Inl (ErrorString ''Isolation level 4 is not supported.'')), Some c') \<and>
             calls c' = [C_get_autocommit, C_SetQueryOnly [] False] \<and> issued c' = []"
    using BeginTx_unsupported_level [of toy_conn toy_engine "\<lparr>Isolation = 4, ReadOnly = False\<rparr>" None, OF _ ac]
    by (auto simp: name toy_engine_def)
  then show ?thesis by auto
qed

end
